theory Spec2Isabelle
  imports Main
begin

section \<open>The parsed document\<close>

text \<open>
  \<^verbatim>\<open>scrape_properties\<close> works on the tree that \<^verbatim>\<open>BeautifulSoup(response.text, "html.parser")\<close>
  returns. A node of that tree is a string of the class \<^verbatim>\<open>NavigableString\<close> itself, a string
  of one of its subclasses (a comment, a CDATA section, the text of a \<^verbatim>\<open>script\<close> and so on), or
  a tag with a name, a dictionary of attributes and a list of children. An attribute value is
  a string or a list of strings (the tree builder decides which attributes are list valued;
  \<^verbatim>\<open>class\<close> is). The dictionary is kept as an association list read with \<open>map_of\<close>. Text is
  a list of bytes (UTF-8).
\<close>

datatype attr_value = Str string | Multi "string list"

datatype string_class =
    CData
  | Comment
  | Declaration
  | Doctype
  | ProcessingInstruction
  | Script
  | Stylesheet
  | TemplateString
  | RubyTextString
  | RubyParenthesisString

datatype node =
    NavigableString string
  | SpecialString string_class string
  | Tag (name: string) (attrs: "(string \<times> attr_value) list") (contents: "node list")

text \<open>The exceptions the program can meet; \<open>RetryError\<close> carries the last attempt's failure.\<close>

datatype exn =
    AttributeError
  | KeyError string
  | HTTPError nat
  | ConnectionError
  | ParserRejectedMarkup
  | OSError
  | RetryError exn

subsection \<open>Searching the tree\<close>

text \<open>\<^verbatim>\<open>tag.descendants\<close>: every node below the tag, in document order, the tag itself excluded.\<close>

fun descendants :: "node \<Rightarrow> node list" where
  "descendants (NavigableString s) = []"
| "descendants (SpecialString k s) = []"
| "descendants (Tag n a cs) = concat (map (\<lambda>c. c # descendants c) cs)"

text \<open>\<^verbatim>\<open>' '.join(values)\<close>\<close>

fun join_space :: "string list \<Rightarrow> string" where
  "join_space [] = []"
| "join_space [v] = v"
| "join_space (v # w # vs) = v @ '' '' @ join_space (w # vs)"

text \<open>
  The keyword \<^verbatim>\<open>class_='c'\<close>: a list-valued \<^verbatim>\<open>class\<close> matches when one of its items is
  \<open>c\<close> or when the items joined by spaces are \<open>c\<close>; a string-valued one when it is \<open>c\<close>.
\<close>

definition has_class :: "string \<Rightarrow> node \<Rightarrow> bool" where
  "has_class c t =
     (case t of
        Tag n a cs \<Rightarrow>
          (case map_of a ''class'' of
             None \<Rightarrow> False
           | Some (Str v) \<Rightarrow> v = c
           | Some (Multi vs) \<Rightarrow> c \<in> set vs \<or> join_space vs = c)
      | _ \<Rightarrow> False)"

definition is_tag :: "string \<Rightarrow> node \<Rightarrow> bool" where
  "is_tag nm t = (case t of Tag n a cs \<Rightarrow> n = nm | _ \<Rightarrow> False)"

text \<open>\<^verbatim>\<open>tag.find_all(nm, class_=c)\<close> and \<^verbatim>\<open>tag.find(nm, class_=c)\<close>\<close>

definition find_all :: "node \<Rightarrow> string \<Rightarrow> string \<Rightarrow> node list" where
  "find_all t nm c = filter (\<lambda>d. is_tag nm d \<and> has_class c d) (descendants t)"

definition find_first :: "node \<Rightarrow> string \<Rightarrow> string \<Rightarrow> node option" where
  "find_first t nm c = (case find_all t nm c of [] \<Rightarrow> None | d # ds \<Rightarrow> Some d)"

text \<open>\<^verbatim>\<open>tag.find('a', href=True)\<close>: the first \<^verbatim>\<open>a\<close> below the tag that has the attribute at all.\<close>

definition has_href :: "node \<Rightarrow> bool" where
  "has_href t =
     (case t of Tag n a cs \<Rightarrow> map_of a ''href'' \<noteq> None | _ \<Rightarrow> False)"

definition find_href_anchor :: "node \<Rightarrow> node option" where
  "find_href_anchor t =
     (case filter (\<lambda>d. is_tag ''a'' d \<and> has_href d) (descendants t) of
        [] \<Rightarrow> None
      | d # ds \<Rightarrow> Some d)"

text \<open>
  \<^verbatim>\<open>tag.text\<close>: the strings below the tag whose class is one of the tag's interesting string
  types, concatenated in document order. A \<^verbatim>\<open>script\<close>, \<^verbatim>\<open>style\<close>, \<^verbatim>\<open>template\<close>, \<^verbatim>\<open>rt\<close> or
  \<^verbatim>\<open>rp\<close> tag holds strings of a class of its own and only those are its text; for every other
  tag the text is made of the plain strings and the CDATA sections, so comments and the
  contents of scripts and style sheets are left out.
\<close>

definition string_container :: "string \<Rightarrow> string_class option" where
  "string_container nm =
     (if nm = ''rt'' then Some RubyTextString
      else if nm = ''rp'' then Some RubyParenthesisString
      else if nm = ''style'' then Some Stylesheet
      else if nm = ''script'' then Some Script
      else if nm = ''template'' then Some TemplateString
      else None)"

definition interesting :: "string \<Rightarrow> node \<Rightarrow> bool" where
  "interesting nm d =
     (case d of
        NavigableString s \<Rightarrow> string_container nm = None
      | SpecialString k s \<Rightarrow>
          (case string_container nm of None \<Rightarrow> k = CData | Some c \<Rightarrow> k = c)
      | Tag n a cs \<Rightarrow> False)"

definition string_of :: "node \<Rightarrow> string" where
  "string_of d = (case d of NavigableString s \<Rightarrow> s | SpecialString k s \<Rightarrow> s | Tag n a cs \<Rightarrow> [])"

definition get_text :: "node \<Rightarrow> string" where
  "get_text t =
     (case t of
        NavigableString s \<Rightarrow> s
      | SpecialString k s \<Rightarrow> s
      | Tag n a cs \<Rightarrow> concat (map string_of (filter (interesting n) (descendants t))))"

text \<open>\<^verbatim>\<open>str.startswith(p)\<close>\<close>

definition startswith :: "string \<Rightarrow> string \<Rightarrow> bool" where
  "startswith s p = (take (length p) s = p)"

text \<open>
  \<^verbatim>\<open>str.strip()\<close> removes the white space characters at both ends. These are the code points
  9 to 13, 28 to 32, U+0085, U+00A0, U+1680, U+2000 to U+200A, U+2028, U+2029, U+202F, U+205F
  and U+3000, here in their UTF-8 encoding. The counter is the number of bytes of the current
  character that are still to be removed.
\<close>

definition whitespace :: "string list" where
  "whitespace =
     [[CHR 0x09], [CHR 0x0A], [CHR 0x0B], [CHR 0x0C], [CHR 0x0D],
      [CHR 0x1C], [CHR 0x1D], [CHR 0x1E], [CHR 0x1F], [CHR 0x20],
      [CHR 0xC2, CHR 0x85], [CHR 0xC2, CHR 0xA0],
      [CHR 0xE1, CHR 0x9A, CHR 0x80],
      [CHR 0xE2, CHR 0x80, CHR 0x80], [CHR 0xE2, CHR 0x80, CHR 0x81],
      [CHR 0xE2, CHR 0x80, CHR 0x82], [CHR 0xE2, CHR 0x80, CHR 0x83],
      [CHR 0xE2, CHR 0x80, CHR 0x84], [CHR 0xE2, CHR 0x80, CHR 0x85],
      [CHR 0xE2, CHR 0x80, CHR 0x86], [CHR 0xE2, CHR 0x80, CHR 0x87],
      [CHR 0xE2, CHR 0x80, CHR 0x88], [CHR 0xE2, CHR 0x80, CHR 0x89],
      [CHR 0xE2, CHR 0x80, CHR 0x8A],
      [CHR 0xE2, CHR 0x80, CHR 0xA8], [CHR 0xE2, CHR 0x80, CHR 0xA9],
      [CHR 0xE2, CHR 0x80, CHR 0xAF],
      [CHR 0xE2, CHR 0x81, CHR 0x9F],
      [CHR 0xE3, CHR 0x80, CHR 0x80]]"

fun lstrip_with :: "string list \<Rightarrow> nat \<Rightarrow> string \<Rightarrow> string" where
  "lstrip_with ws k [] = []"
| "lstrip_with ws k (a # s) =
     (if 0 < k then lstrip_with ws (k - 1) s
      else
        (case find (startswith (a # s)) ws of
           None \<Rightarrow> a # s
         | Some p \<Rightarrow> lstrip_with ws (length p - 1) s))"

definition strip :: "string \<Rightarrow> string" where
  "strip s = rev (lstrip_with (map rev whitespace) 0 (rev (lstrip_with whitespace 0 s)))"

section \<open>Extraction of one listing\<close>

text \<open>
  A record is a Python dictionary: an association list in insertion order, whose values are
  strings or \<^verbatim>\<open>None\<close>.
\<close>

type_synonym property = "(string \<times> string option) list"

text \<open>Source lines 62 to 67: the trimmed text of the first \<^verbatim>\<open>div\<close> of the class, or the sentinel.\<close>

definition div_text :: "node \<Rightarrow> string \<Rightarrow> string" where
  "div_text listing c =
     (case find_first listing ''div'' c of
        Some d \<Rightarrow> strip (get_text d)
      | None \<Rightarrow> ''N/A'')"

text \<open>Source lines 68 and 69.\<close>

definition bedrooms_text :: "node \<Rightarrow> string" where
  "bedrooms_text listing =
     (let bedrooms =
        (case find_first listing ''span'' ''housing'' of
           Some d \<Rightarrow> Some d
         | None \<Rightarrow> find_first listing ''span'' ''bedrooms'')
      in case bedrooms of Some d \<Rightarrow> strip (get_text d) | None \<Rightarrow> ''N/A'')"

text \<open>
  Source lines 71 to 75. A tag is true as a condition. A list-valued \<^verbatim>\<open>href\<close> has no
  \<^verbatim>\<open>startswith\<close>: the call raises \<^verbatim>\<open>AttributeError\<close>. The search returns only tags that
  have the attribute, so the branches for a string node and for a missing key are never taken.
\<close>

definition link_value :: "string \<Rightarrow> node \<Rightarrow> exn + string option" where
  "link_value url listing =
     (case find_href_anchor listing of
        None \<Rightarrow> Inr None
      | Some (Tag n a cs) \<Rightarrow>
          (case map_of a ''href'' of
             None \<Rightarrow> Inl (KeyError ''href'')
           | Some (Multi vs) \<Rightarrow> Inl AttributeError
           | Some (Str link) \<Rightarrow>
               if \<not> startswith link ''http'' then Inr (Some (url @ link))
               else Inr (Some link))
      | Some _ \<Rightarrow> Inr None)"

text \<open>The body of the inner \<^verbatim>\<open>try\<close>, source lines 62 to 83.\<close>

definition extract_listing :: "string \<Rightarrow> node \<Rightarrow> exn + property" where
  "extract_listing url listing =
     (let title = div_text listing ''title'';
          price = div_text listing ''price'';
          location = div_text listing ''location'';
          bedrooms = bedrooms_text listing
      in case link_value url listing of
           Inl e \<Rightarrow> Inl e
         | Inr link \<Rightarrow>
             Inr [(''Title'', Some title),
                  (''Price'', Some price),
                  (''Location'', Some location),
                  (''Bedrooms'', Some bedrooms),
                  (''Link'', link)])"

section \<open>The outside world\<close>

text \<open>
  What the program does to the world is kept as a trace of events and a file system. Log
  lines are kept by level and content; the \<^verbatim>\<open>print\<close> calls repeat info lines and are left out.
\<close>

datatype level = INFO | WARNING | ERROR

datatype message =
    Found nat
  | ErrorProcessingListing exn
  | ScrapingFailed exn
  | SavedCsv nat string
  | FailedCsv exn
  | EmailSent
  | FailedEmail exn
  | TelegramSent
  | FailedTelegram exn
  | NoPropertiesScraped
  | ScriptFailed exn

datatype event =
    is_Log: Log level message
  | is_HttpGet: HttpGet string
  | is_Sleep: Sleep nat
  | is_ToCsv: ToCsv string
  | is_HttpPost: HttpPost string
  | is_SmtpSend: SmtpSend string

text \<open>A data frame: the column names in order, and one row of cells per record.\<close>

record table =
  columns :: "string list"
  rows :: "string option list list"

record world =
  files :: "string \<rightharpoonup> table"
  gets :: nat
  trace :: "event list"

definition emit :: "event \<Rightarrow> world \<Rightarrow> world" where
  "emit ev w = w\<lparr>trace := trace w @ [ev]\<rparr>"

text \<open>
  What the world answers: the outcome of the k-th \<^verbatim>\<open>requests.get\<close> (counted from 0), the
  parser, and the outcomes of the file write, the chat POST and the mail session.
\<close>

datatype http_outcome = Failed exn | Response nat string

record env =
  responses :: "nat \<Rightarrow> http_outcome"
  BeautifulSoup :: "string \<Rightarrow> exn + node"
  to_csv_error :: "exn option"
  post_outcome :: http_outcome
  smtp_error :: "exn option"

text \<open>\<^verbatim>\<open>response.raise_for_status()\<close>\<close>

definition raise_for_status :: "nat \<Rightarrow> exn option" where
  "raise_for_status status = (if 400 \<le> status \<and> status < 600 then Some (HTTPError status) else None)"

section \<open>scrape_properties\<close>

text \<open>
  Source lines 52 to 54: \<^verbatim>\<open>A or B or C\<close> evaluates the next operand only when the one before
  is an empty list. The second component lists the selectors \<^verbatim>\<open>find_all\<close> was called with.
\<close>

definition find_listings :: "node \<Rightarrow> node list \<times> (string \<times> string) list" where
  "find_listings soup =
     (let a = find_all soup ''li'' ''cl-static-search-result'' in
      if a \<noteq> [] then (a, [(''li'', ''cl-static-search-result'')])
      else
        let b = find_all soup ''div'' ''result-row'' in
        if b \<noteq> [] then (b, [(''li'', ''cl-static-search-result''), (''div'', ''result-row'')])
        else
          (find_all soup ''div'' ''cl-search-result'',
           [(''li'', ''cl-static-search-result''), (''div'', ''result-row''),
            (''div'', ''cl-search-result'')]))"

text \<open>Source lines 59 to 88: the loop over the listings, with its inner \<^verbatim>\<open>try\<close>.\<close>

fun extract_loop :: "string \<Rightarrow> node list \<Rightarrow> property list \<Rightarrow> world \<Rightarrow> property list \<times> world" where
  "extract_loop url [] properties w = (properties, w)"
| "extract_loop url (listing # rest) properties w =
     (case extract_listing url listing of
        Inr p \<Rightarrow> extract_loop url rest (properties @ [p]) w
      | Inl e \<Rightarrow> extract_loop url rest properties (emit (Log WARNING (ErrorProcessingListing e)) w))"

text \<open>Source lines 48 to 92: the function under the decorator, one call of it.\<close>

definition scrape_failed :: "exn \<Rightarrow> world \<Rightarrow> (exn + property list) \<times> world" where
  "scrape_failed e w = (Inl e, emit (Log ERROR (ScrapingFailed e)) w)"

definition scrape_once :: "env \<Rightarrow> string \<Rightarrow> world \<Rightarrow> (exn + property list) \<times> world" where
  "scrape_once env url w =
     (let w1 = (emit (HttpGet url) w)\<lparr>gets := gets w + 1\<rparr> in
      case responses env (gets w) of
        Failed e \<Rightarrow> scrape_failed e w1
      | Response status text \<Rightarrow>
          (case raise_for_status status of
             Some e \<Rightarrow> scrape_failed e w1
           | None \<Rightarrow>
               (case BeautifulSoup env text of
                  Inl e \<Rightarrow> scrape_failed e w1
                | Inr soup \<Rightarrow>
                    let listings = fst (find_listings soup);
                        w2 = emit (Log INFO (Found (length listings))) w1;
                        (properties, w3) = extract_loop url listings [] w2
                    in (Inr properties, w3))))"

text \<open>
  Source line 31: \<^verbatim>\<open>@retry(stop=stop_after_attempt(3), wait=wait_fixed(2))\<close>. The wrapper calls
  the function; a result is returned; after an exception it stops when the attempt number has
  reached 3 and raises \<^verbatim>\<open>RetryError\<close> around the last attempt (\<^verbatim>\<open>reraise\<close> is not set),
  otherwise it sleeps 2 seconds and calls again.
\<close>

function retry_call ::
  "(world \<Rightarrow> (exn + 'a) \<times> world) \<Rightarrow> nat \<Rightarrow> world \<Rightarrow> (exn + 'a) \<times> world" where
  "retry_call fn attempt_number w =
     (case fn w of
        (Inr r, w1) \<Rightarrow> (Inr r, w1)
      | (Inl e, w1) \<Rightarrow>
          if 3 \<le> attempt_number then (Inl (RetryError e), w1)
          else retry_call fn (attempt_number + 1) (emit (Sleep 2) w1))"
  by pat_completeness auto
termination
  by (relation "measure (\<lambda>(fn, k, w). 3 - k)") auto

definition scrape_properties :: "env \<Rightarrow> string \<Rightarrow> world \<Rightarrow> (exn + property list) \<times> world" where
  "scrape_properties env url w = retry_call (scrape_once env url) 1 w"

section \<open>The sinks\<close>

text \<open>
  \<^verbatim>\<open>pd.DataFrame(data)\<close> on a list of dictionaries: the columns are the keys in the order in
  which they are first met, record by record; a record without a key has an empty cell.
\<close>

fun first_seen :: "string list \<Rightarrow> string list \<Rightarrow> string list" where
  "first_seen seen [] = []"
| "first_seen seen (k # ks) =
     (if k \<in> set seen then first_seen seen ks else k # first_seen (k # seen) ks)"

definition cell :: "property \<Rightarrow> string \<Rightarrow> string option" where
  "cell p k = (case map_of p k of None \<Rightarrow> None | Some v \<Rightarrow> v)"

definition DataFrame :: "property list \<Rightarrow> table" where
  "DataFrame data =
     (let cols = first_seen [] (concat (map (map fst) data))
      in \<lparr>columns = cols, rows = map (\<lambda>p. map (cell p) cols) data\<rparr>)"

text \<open>
  Source lines 95 to 109. \<^verbatim>\<open>df.to_csv(filename, index=False)\<close> writes the header and the rows
  in column order and replaces the file.
\<close>

definition save_to_csv :: "env \<Rightarrow> property list \<Rightarrow> string \<Rightarrow> world \<Rightarrow> (exn + unit) \<times> world" where
  "save_to_csv env data filename w =
     (let df = DataFrame data;
          w1 = emit (ToCsv filename) w
      in case to_csv_error env of
           Some e \<Rightarrow> (Inl e, emit (Log ERROR (FailedCsv e)) w1)
         | None \<Rightarrow>
             (Inr (),
              emit (Log INFO (SavedCsv (length (rows df)) filename))
                (w1\<lparr>files := (files w1)(filename \<mapsto> df)\<rparr>)))"

text \<open>\<^verbatim>\<open>prop[k]\<close> and the text an f-string puts for a value.\<close>

definition getitem :: "property \<Rightarrow> string \<Rightarrow> exn + string option" where
  "getitem p k = (case map_of p k of None \<Rightarrow> Inl (KeyError k) | Some v \<Rightarrow> Inr v)"

definition fmt :: "string option \<Rightarrow> string" where
  "fmt v = (case v of None \<Rightarrow> ''None'' | Some s \<Rightarrow> s)"

text \<open>An f-string over keys of a record: the keys are read left to right.\<close>

fun getitems :: "property \<Rightarrow> string list \<Rightarrow> exn + string list" where
  "getitems p [] = Inr []"
| "getitems p (k # ks) =
     (case getitem p k of
        Inl e \<Rightarrow> Inl e
      | Inr v \<Rightarrow> (case getitems p ks of Inl e \<Rightarrow> Inl e | Inr vs \<Rightarrow> Inr (fmt v # vs)))"

text \<open>The characters of the messages that are not ASCII, as UTF-8.\<close>

definition warning_sign :: string where
  "warning_sign = [CHR 0xE2, CHR 0x9A, CHR 0xA0, CHR 0xEF, CHR 0xB8, CHR 0x8F]"

definition houses :: string where
  "houses = [CHR 0xF0, CHR 0x9F, CHR 0x8F, CHR 0x98, CHR 0xEF, CHR 0xB8, CHR 0x8F]"

definition house :: string where
  "house = [CHR 0xF0, CHR 0x9F, CHR 0x8F, CHR 0xA0]"

definition banknote :: string where
  "banknote = [CHR 0xF0, CHR 0x9F, CHR 0x92, CHR 0xB5]"

definition bed :: string where
  "bed = [CHR 0xF0, CHR 0x9F, CHR 0x9B, CHR 0x8F, CHR 0xEF, CHR 0xB8, CHR 0x8F]"

definition pin :: string where
  "pin = [CHR 0xF0, CHR 0x9F, CHR 0x93, CHR 0x8D]"

definition link_sign :: string where
  "link_sign = [CHR 0xF0, CHR 0x9F, CHR 0x94, CHR 0x97]"

definition nl :: string where
  "nl = [CHR 0x0A]"

definition no_properties_message :: string where
  "no_properties_message = warning_sign @ '' No properties found today''"

definition listings_header :: string where
  "listings_header = houses @ '' <b>New Property Listings</b>'' @ nl @ nl"

text \<open>Source lines 163 to 169.\<close>

fun telegram_loop :: "property list \<Rightarrow> string \<Rightarrow> exn + string" where
  "telegram_loop [] message = Inr message"
| "telegram_loop (prop # rest) message =
     (case getitems prop [''Title'', ''Price'', ''Bedrooms'', ''Location'', ''Link''] of
        Inr [title, price, bedrooms, location, link] \<Rightarrow>
          telegram_loop rest
            (message @
             house @ '' <b>'' @ title @ ''</b>'' @ nl @
             banknote @ '' '' @ price @ '' | '' @ bed @ '' '' @ bedrooms @ nl @
             pin @ '' '' @ location @ nl @
             link_sign @ '' <a href='' @ [CHR 0x27] @ link @ [CHR 0x27] @ ''>View Listing</a>'' @ nl @ nl)
      | Inr vs \<Rightarrow> Inr message
      | Inl e \<Rightarrow> Inl e)"

text \<open>Source lines 153 to 188; the message is composed outside the \<^verbatim>\<open>try\<close>.\<close>

definition telegram_message :: "property list \<Rightarrow> exn + string" where
  "telegram_message data =
     (if data = [] then Inr no_properties_message
      else telegram_loop (take 5 data) listings_header)"

definition send_telegram_alert :: "env \<Rightarrow> property list \<Rightarrow> world \<Rightarrow> (exn + unit) \<times> world" where
  "send_telegram_alert env data w =
     (case telegram_message data of
        Inl e \<Rightarrow> (Inl e, w)
      | Inr message \<Rightarrow>
          (let w1 = emit (HttpPost message) w in
           (case post_outcome env of
              Failed e \<Rightarrow> (Inl e, emit (Log ERROR (FailedTelegram e)) w1)
            | Response status text \<Rightarrow>
                (case raise_for_status status of
                   Some e \<Rightarrow> (Inl e, emit (Log ERROR (FailedTelegram e)) w1)
                 | None \<Rightarrow> (Inr (), emit (Log INFO TelegramSent) w1)))))"

text \<open>Source lines 112 to 150; here the table is composed inside the \<^verbatim>\<open>try\<close>.\<close>

definition email_header :: string where
  "email_header =
     ''<html><body><h2>New Property Listings</h2><table border='' @ [CHR 0x22] @ ''1'' @ [CHR 0x22] @ ''>'' @
     ''<tr><th>Title</th><th>Price</th><th>Bedrooms</th><th>Location</th></tr>''"

definition indent12 :: string where
  "indent12 = replicate 12 CHR '' ''"

definition indent16 :: string where
  "indent16 = replicate 16 CHR '' ''"

fun email_loop :: "property list \<Rightarrow> string \<Rightarrow> exn + string" where
  "email_loop [] html = Inr html"
| "email_loop (prop # rest) html =
     (case getitems prop [''Link'', ''Title'', ''Price'', ''Bedrooms'', ''Location''] of
        Inr [link, title, price, bedrooms, location] \<Rightarrow>
          email_loop rest
            (html @ nl @
             indent12 @ ''<tr>'' @ nl @
             indent16 @ ''<td><a href='' @ [CHR 0x22] @ link @ [CHR 0x22] @ ''>'' @ title @ ''</a></td>'' @ nl @
             indent16 @ ''<td>'' @ price @ ''</td>'' @ nl @
             indent16 @ ''<td>'' @ bedrooms @ ''</td>'' @ nl @
             indent16 @ ''<td>'' @ location @ ''</td>'' @ nl @
             indent12 @ ''</tr>'')
      | Inr vs \<Rightarrow> Inr html
      | Inl e \<Rightarrow> Inl e)"

definition send_email :: "env \<Rightarrow> property list \<Rightarrow> world \<Rightarrow> (exn + unit) \<times> world" where
  "send_email env data w =
     (case email_loop (take 10 data) email_header of
        Inl e \<Rightarrow> (Inl e, emit (Log ERROR (FailedEmail e)) w)
      | Inr html \<Rightarrow>
          (let w1 = emit (SmtpSend (html @ ''</table></body></html>'')) w in
           (case smtp_error env of
              Some e \<Rightarrow> (Inl e, emit (Log ERROR (FailedEmail e)) w1)
            | None \<Rightarrow> (Inr (), emit (Log INFO EmailSent) w1))))"

section \<open>main\<close>

definition target_url :: string where
  "target_url = ''https://dallas.craigslist.org/search/rea''"

definition script_failed :: "exn \<Rightarrow> world \<Rightarrow> (exn + unit) \<times> world" where
  "script_failed e w = (Inl e, emit (Log ERROR (ScriptFailed e)) w)"

text \<open>Source lines 191 to 212. The call of \<^verbatim>\<open>send_email\<close> is commented out there.\<close>

definition main :: "env \<Rightarrow> world \<Rightarrow> (exn + unit) \<times> world" where
  "main env w =
     (case scrape_properties env target_url w of
        (Inl e, w1) \<Rightarrow> script_failed e w1
      | (Inr properties, w1) \<Rightarrow>
          if properties \<noteq> [] then
            (case save_to_csv env properties ''properties.csv'' w1 of
               (Inl e, w2) \<Rightarrow> script_failed e w2
             | (Inr u, w2) \<Rightarrow>
                 (case send_telegram_alert env properties w2 of
                    (Inl e, w3) \<Rightarrow> script_failed e w3
                  | (Inr u', w3) \<Rightarrow> (Inr (), w3)))
          else (Inr (), emit (Log WARNING NoPropertiesScraped) w1))"

section \<open>Notions used in the statements\<close>

text \<open>
  What one listing contributes to the output and to the log; the result and the events of the
  call of \<^verbatim>\<open>scrape_properties\<close> that makes the k-th request; the sleeps of a trace.
\<close>

abbreviation kept :: "string \<Rightarrow> node \<Rightarrow> property list" where
  "kept url m \<equiv> (case extract_listing url m of Inr p \<Rightarrow> [p] | Inl e \<Rightarrow> [])"

abbreviation warned :: "string \<Rightarrow> node \<Rightarrow> event list" where
  "warned url m \<equiv>
     (case extract_listing url m of
        Inr p \<Rightarrow> []
      | Inl e \<Rightarrow> [Log WARNING (ErrorProcessingListing e)])"

definition attempt :: "env \<Rightarrow> string \<Rightarrow> nat \<Rightarrow> exn + property list" where
  "attempt env url k = fst (scrape_once env url \<lparr>files = Map.empty, gets = k, trace = []\<rparr>)"

definition attempt_events :: "env \<Rightarrow> string \<Rightarrow> nat \<Rightarrow> event list" where
  "attempt_events env url k =
     trace (snd (scrape_once env url \<lparr>files = Map.empty, gets = k, trace = []\<rparr>))"

primrec naps :: "event list \<Rightarrow> nat list" where
  "naps [] = []"
| "naps (ev # evs) = (case ev of Sleep d \<Rightarrow> d # naps evs | _ \<Rightarrow> naps evs)"

section \<open>Example documents\<close>

definition bare_listing :: node where
  "bare_listing = Tag ''li'' [(''class'', Multi [''cl-static-search-result''])] [
      Tag ''div'' [(''class'', Multi [''location''])] [NavigableString '' Plano ''],
      Tag ''span'' [(''class'', Multi [''bedrooms''])] [NavigableString ''2br'']]"

definition post_listing :: node where
  "post_listing = Tag ''li'' [(''class'', Multi [''cl-static-search-result''])] [
      Tag ''a'' [(''href'', Str ''/post/123'')] [
        Tag ''div'' [(''class'', Multi [''title''])] [NavigableString ''  Nice house  '']]]"

definition httpfoo_listing :: node where
  "httpfoo_listing = Tag ''div'' [(''class'', Multi [''result-row''])] [
      Tag ''a'' [] [NavigableString ''no target''],
      Tag ''a'' [(''href'', Str ''httpfoo'')] [],
      Tag ''span'' [(''class'', Multi [''housing''])] [NavigableString ''3br''],
      Tag ''span'' [(''class'', Multi [''bedrooms''])] [NavigableString ''2br'']]"

definition multi_listing :: node where
  "multi_listing = Tag ''li'' [(''class'', Multi [''cl-static-search-result'', ''odd''])] [
      Tag ''div'' [(''class'', Multi [''title''])] [NavigableString ''Loft''],
      Tag ''a'' [(''href'', Multi [''/post/7''])] []]"

definition page :: node where
  "page = Tag ''[document]'' [] [
      Tag ''ol'' [] [post_listing, multi_listing],
      httpfoo_listing]"

definition rows_page :: node where
  "rows_page = Tag ''[document]'' [] [
      httpfoo_listing,
      Tag ''div'' [(''class'', Multi [''cl-search-result''])] []]"

definition twins_page :: node where
  "twins_page = Tag ''[document]'' [] [post_listing, bare_listing, post_listing]"

definition page_env :: "node \<Rightarrow> env" where
  "page_env soup =
     \<lparr>responses = (\<lambda>k. Response 200 ''<html>''),
      BeautifulSoup = (\<lambda>text. Inr soup),
      to_csv_error = None,
      post_outcome = Response 200 ''{}'',
      smtp_error = None\<rparr>"

definition start :: world where
  "start = \<lparr>files = Map.empty, gets = 0, trace = []\<rparr>"

definition down_env :: env where
  "down_env =
     \<lparr>responses = (\<lambda>k. Failed ConnectionError),
      BeautifulSoup = (\<lambda>text. Inr page),
      to_csv_error = None,
      post_outcome = Response 200 ''{}'',
      smtp_error = None\<rparr>"

definition recover_env :: env where
  "recover_env =
     \<lparr>responses = (\<lambda>k. if k < 2 then Failed ConnectionError else Response 200 ''<html>''),
      BeautifulSoup = (\<lambda>text. Inr page),
      to_csv_error = None,
      post_outcome = Response 200 ''{}'',
      smtp_error = None\<rparr>"

definition reparse_env :: env where
  "reparse_env =
     \<lparr>responses = (\<lambda>k. Response 200 (if k = 0 then ''<![x]>'' else ''<html>'')),
      BeautifulSoup = (\<lambda>text. if text = ''<![x]>'' then Inl ParserRejectedMarkup else Inr page),
      to_csv_error = None,
      post_outcome = Response 200 ''{}'',
      smtp_error = None\<rparr>"

definition empty_page :: node where
  "empty_page = Tag ''[document]'' [] [Tag ''p'' [] [NavigableString ''nothing here'']]"

definition stale_world :: world where
  "stale_world =
     \<lparr>files = [''properties.csv'' \<mapsto> \<lparr>columns = [''old''], rows = [[Some ''row'']]\<rparr>],
      gets = 0,
      trace = []\<rparr>"

definition post_record :: property where
  "post_record =
     [(''Title'', Some ''Nice house''), (''Price'', Some ''N/A''), (''Location'', Some ''N/A''),
      (''Bedrooms'', Some ''N/A''),
      (''Link'', Some ''https://dallas.craigslist.org/search/rea/post/123'')]"

definition link_first_record :: property where
  "link_first_record =
     [(''Link'', Some ''https://dallas.craigslist.org/search/rea/post/123''),
      (''Title'', Some ''Nice house''), (''Price'', Some ''N/A''), (''Location'', Some ''N/A''),
      (''Bedrooms'', Some ''N/A'')]"

definition villa_listing :: node where
  "villa_listing = Tag ''li'' [(''class'', Multi [''cl-static-search-result''])] [
      Tag ''div'' [(''class'', Multi [''title''])] [
        SpecialString Comment '' promoted '',
        NavigableString ([CHR 0xC2, CHR 0xA0] @ ''Villa '' @ [CHR 0xE2, CHR 0x80, CHR 0x89]),
        Tag ''script'' [] [SpecialString Script ''track()'']],
      Tag ''a'' [(''href'', Str ''https://example.org/villa'')] []]"

section \<open>Finding the listings\<close>

text \<open>
  C2. The three selectors are tried in order and the first that matches anything gives the
  listings: when the first matches, it alone is consulted; when it matches nothing and the
  second does, those two are consulted and the third is not; the result is always the
  matches of one selector.
\<close>

theorem first_nonempty_selector_wins:
  "(find_all soup ''li'' ''cl-static-search-result'' \<noteq> [] \<longrightarrow>
      find_listings soup =
        (find_all soup ''li'' ''cl-static-search-result'', [(''li'', ''cl-static-search-result'')])) \<and>
   (find_all soup ''li'' ''cl-static-search-result'' = [] \<and> find_all soup ''div'' ''result-row'' \<noteq> [] \<longrightarrow>
      find_listings soup =
        (find_all soup ''div'' ''result-row'',
         [(''li'', ''cl-static-search-result''), (''div'', ''result-row'')])) \<and>
   (find_all soup ''li'' ''cl-static-search-result'' = [] \<and> find_all soup ''div'' ''result-row'' = [] \<longrightarrow>
      find_listings soup =
        (find_all soup ''div'' ''cl-search-result'',
         [(''li'', ''cl-static-search-result''), (''div'', ''result-row''),
          (''div'', ''cl-search-result'')]))"
  by (simp add: find_listings_def Let_def)

lemma page_static:
  "find_all page ''li'' ''cl-static-search-result'' = [post_listing, multi_listing]"
  by (simp add: page_def post_listing_def multi_listing_def httpfoo_listing_def find_all_def
      is_tag_def has_class_def)

lemma page_rows: "find_all page ''div'' ''result-row'' = [httpfoo_listing]"
  by (simp add: page_def post_listing_def multi_listing_def httpfoo_listing_def find_all_def
      is_tag_def has_class_def)

lemma rows_page_static: "find_all rows_page ''li'' ''cl-static-search-result'' = []"
  by (simp add: rows_page_def httpfoo_listing_def find_all_def is_tag_def has_class_def)

lemma rows_page_rows: "find_all rows_page ''div'' ''result-row'' = [httpfoo_listing]"
  by (simp add: rows_page_def httpfoo_listing_def find_all_def is_tag_def has_class_def)

theorem first_nonempty_selector_wins_witness:
  "find_all page ''div'' ''result-row'' \<noteq> [] \<and>
   find_listings page = ([post_listing, multi_listing], [(''li'', ''cl-static-search-result'')]) \<and>
   find_all rows_page ''div'' ''cl-search-result'' \<noteq> [] \<and>
   find_listings rows_page =
     ([httpfoo_listing], [(''li'', ''cl-static-search-result''), (''div'', ''result-row'')]) \<and>
   find_listings (Tag ''[document]'' [] []) =
     ([], [(''li'', ''cl-static-search-result''), (''div'', ''result-row''),
           (''div'', ''cl-search-result'')])"
  using first_nonempty_selector_wins [of page] first_nonempty_selector_wins [of rows_page]
    first_nonempty_selector_wins [of "Tag ''[document]'' [] []"]
  by (simp add: page_static page_rows rows_page_static rows_page_rows)
    (simp add: rows_page_def find_all_def is_tag_def has_class_def)

section \<open>One listing\<close>

lemma extract_listing_emitted:
  "link_value url listing = Inr link \<Longrightarrow>
   extract_listing url listing =
     Inr [(''Title'', Some (div_text listing ''title'')),
          (''Price'', Some (div_text listing ''price'')),
          (''Location'', Some (div_text listing ''location'')),
          (''Bedrooms'', Some (bedrooms_text listing)),
          (''Link'', link)]"
  by (simp add: extract_listing_def)

lemma extract_listing_raises:
  "extract_listing url listing = Inl e \<Longrightarrow> link_value url listing = Inl e"
  by (auto simp: extract_listing_def split: sum.splits)

text \<open>
  C3, as amended. A listing that has no \<^verbatim>\<open>div\<close> of class title, price or location gets the
  sentinel \<^verbatim>\<open>N/A\<close> in that field; the bedrooms field takes the first \<^verbatim>\<open>span\<close> of class housing,
  else the first of class bedrooms, else the sentinel. A listing with no anchor carrying
  \<^verbatim>\<open>href\<close> gets \<^verbatim>\<open>None\<close> as its link. The record is emitted with all five fields whenever
  the link step returns, and the only exception of the extraction is one of the link step: an
  absent element never raises.
\<close>

theorem missing_element_gives_sentinel:
  "(\<forall>link. link_value url listing = Inr link \<longrightarrow>
      extract_listing url listing =
        Inr [(''Title'', Some (div_text listing ''title'')),
             (''Price'', Some (div_text listing ''price'')),
             (''Location'', Some (div_text listing ''location'')),
             (''Bedrooms'', Some (bedrooms_text listing)),
             (''Link'', link)]) \<and>
   (\<forall>c. find_first listing ''div'' c = None \<longrightarrow> div_text listing c = ''N/A'') \<and>
   (\<forall>d. find_first listing ''span'' ''housing'' = Some d \<longrightarrow>
      bedrooms_text listing = strip (get_text d)) \<and>
   (\<forall>d. find_first listing ''span'' ''housing'' = None \<and>
        find_first listing ''span'' ''bedrooms'' = Some d \<longrightarrow>
      bedrooms_text listing = strip (get_text d)) \<and>
   (find_first listing ''span'' ''housing'' = None \<and>
    find_first listing ''span'' ''bedrooms'' = None \<longrightarrow>
      bedrooms_text listing = ''N/A'') \<and>
   (find_href_anchor listing = None \<longrightarrow> link_value url listing = Inr None) \<and>
   (\<forall>e. extract_listing url listing = Inl e \<longrightarrow> link_value url listing = Inl e)"
proof (intro conjI)
  show "\<forall>link. link_value url listing = Inr link \<longrightarrow>
      extract_listing url listing =
        Inr [(''Title'', Some (div_text listing ''title'')),
             (''Price'', Some (div_text listing ''price'')),
             (''Location'', Some (div_text listing ''location'')),
             (''Bedrooms'', Some (bedrooms_text listing)),
             (''Link'', link)]"
    by (simp add: extract_listing_emitted)
  show "\<forall>c. find_first listing ''div'' c = None \<longrightarrow> div_text listing c = ''N/A''"
    by (simp add: div_text_def)
  show "\<forall>d. find_first listing ''span'' ''housing'' = Some d \<longrightarrow>
      bedrooms_text listing = strip (get_text d)"
    by (simp add: bedrooms_text_def)
  show "\<forall>d. find_first listing ''span'' ''housing'' = None \<and>
        find_first listing ''span'' ''bedrooms'' = Some d \<longrightarrow>
      bedrooms_text listing = strip (get_text d)"
    by (simp add: bedrooms_text_def)
  show "find_first listing ''span'' ''housing'' = None \<and>
    find_first listing ''span'' ''bedrooms'' = None \<longrightarrow>
      bedrooms_text listing = ''N/A''"
    by (simp add: bedrooms_text_def)
  show "find_href_anchor listing = None \<longrightarrow> link_value url listing = Inr None"
    by (simp add: link_value_def)
  show "\<forall>e. extract_listing url listing = Inl e \<longrightarrow> link_value url listing = Inl e"
    by (simp add: extract_listing_raises)
qed

lemma bare_listing_finds:
  "find_first bare_listing ''div'' ''title'' = None"
  "find_first bare_listing ''div'' ''price'' = None"
  "find_first bare_listing ''span'' ''housing'' = None"
  "find_first bare_listing ''span'' ''bedrooms'' =
     Some (Tag ''span'' [(''class'', Multi [''bedrooms''])] [NavigableString ''2br''])"
  "find_href_anchor bare_listing = None"
  by (simp_all add: bare_listing_def find_first_def find_all_def find_href_anchor_def
      is_tag_def has_class_def has_href_def)

lemma bare_listing_location: "div_text bare_listing ''location'' = ''Plano''"
  by (simp add: bare_listing_def div_text_def find_first_def find_all_def is_tag_def
      has_class_def strip_def whitespace_def startswith_def get_text_def interesting_def
      string_container_def string_of_def)

theorem missing_element_gives_sentinel_witness:
  "find_first bare_listing ''div'' ''title'' = None \<and>
   find_first bare_listing ''div'' ''price'' = None \<and>
   find_first bare_listing ''span'' ''housing'' = None \<and>
   find_href_anchor bare_listing = None \<and>
   extract_listing target_url bare_listing =
     Inr [(''Title'', Some ''N/A''), (''Price'', Some ''N/A''), (''Location'', Some ''Plano''),
          (''Bedrooms'', Some ''2br''), (''Link'', None)]"
  using missing_element_gives_sentinel [of target_url bare_listing]
  by (simp add: bare_listing_finds bare_listing_location strip_def whitespace_def startswith_def get_text_def interesting_def
      string_container_def string_of_def)

text \<open>
  C3 as stated fails for the link: a listing with no anchor has \<^verbatim>\<open>None\<close> there, not the
  sentinel.
\<close>

theorem missing_link_is_not_sentinel_counterexample:
  "extract_listing ''https://dallas.craigslist.org/search/rea'' (Tag ''li'' [] []) =
     Inr [(''Title'', Some ''N/A''), (''Price'', Some ''N/A''), (''Location'', Some ''N/A''),
          (''Bedrooms'', Some ''N/A''), (''Link'', None)] \<and>
   extract_listing ''https://dallas.craigslist.org/search/rea'' (Tag ''li'' [] []) \<noteq>
     Inr [(''Title'', Some ''N/A''), (''Price'', Some ''N/A''), (''Location'', Some ''N/A''),
          (''Bedrooms'', Some ''N/A''), (''Link'', Some ''N/A'')]"
  by (simp add: extract_listing_def link_value_def find_href_anchor_def div_text_def
      bedrooms_text_def find_first_def find_all_def)

text \<open>
  C4. When the \<^verbatim>\<open>href\<close> of the first anchor that has one does not start with \<^verbatim>\<open>http\<close>, the
  link of the record is the query URL followed by the \<^verbatim>\<open>href\<close>, character by character.
\<close>

theorem relative_href_is_concatenated:
  "find_href_anchor listing = Some (Tag n a cs) \<Longrightarrow>
   map_of a ''href'' = Some (Str href) \<Longrightarrow>
   \<not> startswith href ''http'' \<Longrightarrow>
   extract_listing url listing =
     Inr [(''Title'', Some (div_text listing ''title'')),
          (''Price'', Some (div_text listing ''price'')),
          (''Location'', Some (div_text listing ''location'')),
          (''Bedrooms'', Some (bedrooms_text listing)),
          (''Link'', Some (url @ href))]"
  by (simp add: extract_listing_emitted link_value_def)

lemma post_listing_anchor:
  "find_href_anchor post_listing =
     Some (Tag ''a'' [(''href'', Str ''/post/123'')] [
        Tag ''div'' [(''class'', Multi [''title''])] [NavigableString ''  Nice house  '']])"
  by (simp add: post_listing_def find_href_anchor_def is_tag_def has_href_def)

lemma post_listing_fields:
  "div_text post_listing ''title'' = ''Nice house''"
  "div_text post_listing ''price'' = ''N/A''"
  "div_text post_listing ''location'' = ''N/A''"
  "bedrooms_text post_listing = ''N/A''"
  by (simp_all add: post_listing_def div_text_def bedrooms_text_def find_first_def find_all_def
      is_tag_def has_class_def strip_def whitespace_def startswith_def get_text_def interesting_def
      string_container_def string_of_def)

theorem relative_href_is_concatenated_witness:
  "\<not> startswith ''/post/123'' ''http'' \<and>
   extract_listing ''https://dallas.craigslist.org/search/rea'' post_listing =
     Inr [(''Title'', Some ''Nice house''), (''Price'', Some ''N/A''), (''Location'', Some ''N/A''),
          (''Bedrooms'', Some ''N/A''),
          (''Link'', Some ''https://dallas.craigslist.org/search/rea/post/123'')]"
  using relative_href_is_concatenated [OF post_listing_anchor,
      of "''/post/123''" "''https://dallas.craigslist.org/search/rea''"]
  by (simp add: post_listing_fields startswith_def)

lemma startswith_http: "startswith s ''http'' = (take 4 s = ''http'')"
  by (simp add: startswith_def eval_nat_numeral)

text \<open>
  C10. The test for an absolute link compares the first four characters with \<^verbatim>\<open>http\<close> and
  nothing else: such an \<^verbatim>\<open>href\<close> is the link unchanged. A listing with no anchor carrying
  \<^verbatim>\<open>href\<close> has the link \<^verbatim>\<open>None\<close>.
\<close>

theorem http_prefix_keeps_href:
  "(\<forall>n a cs href. find_href_anchor listing = Some (Tag n a cs) \<and>
        map_of a ''href'' = Some (Str href) \<and> take 4 href = ''http'' \<longrightarrow>
      extract_listing url listing =
        Inr [(''Title'', Some (div_text listing ''title'')),
             (''Price'', Some (div_text listing ''price'')),
             (''Location'', Some (div_text listing ''location'')),
             (''Bedrooms'', Some (bedrooms_text listing)),
             (''Link'', Some href)]) \<and>
   (find_href_anchor listing = None \<longrightarrow>
      extract_listing url listing =
        Inr [(''Title'', Some (div_text listing ''title'')),
             (''Price'', Some (div_text listing ''price'')),
             (''Location'', Some (div_text listing ''location'')),
             (''Bedrooms'', Some (bedrooms_text listing)),
             (''Link'', None)])"
proof (intro conjI allI impI)
  fix n a cs href
  assume h: "find_href_anchor listing = Some (Tag n a cs) \<and>
        map_of a ''href'' = Some (Str href) \<and> take 4 href = ''http''"
  then have "link_value url listing = Inr (Some href)"
    by (simp add: link_value_def startswith_http)
  then show "extract_listing url listing =
        Inr [(''Title'', Some (div_text listing ''title'')),
             (''Price'', Some (div_text listing ''price'')),
             (''Location'', Some (div_text listing ''location'')),
             (''Bedrooms'', Some (bedrooms_text listing)),
             (''Link'', Some href)]"
    by (rule extract_listing_emitted)
next
  assume "find_href_anchor listing = None"
  then have "link_value url listing = Inr None"
    by (simp add: link_value_def)
  then show "extract_listing url listing =
        Inr [(''Title'', Some (div_text listing ''title'')),
             (''Price'', Some (div_text listing ''price'')),
             (''Location'', Some (div_text listing ''location'')),
             (''Bedrooms'', Some (bedrooms_text listing)),
             (''Link'', None)]"
    by (rule extract_listing_emitted)
qed

lemma httpfoo_listing_fields:
  "div_text httpfoo_listing ''title'' = ''N/A''"
  "div_text httpfoo_listing ''price'' = ''N/A''"
  "div_text httpfoo_listing ''location'' = ''N/A''"
  "bedrooms_text httpfoo_listing = ''3br''"
  by (simp_all add: httpfoo_listing_def div_text_def bedrooms_text_def find_first_def find_all_def
      is_tag_def has_class_def strip_def whitespace_def startswith_def get_text_def interesting_def
      string_container_def string_of_def)

lemma bare_listing_fields:
  "div_text bare_listing ''title'' = ''N/A''"
  "div_text bare_listing ''price'' = ''N/A''"
  "bedrooms_text bare_listing = ''2br''"
  by (simp_all add: bare_listing_def div_text_def bedrooms_text_def find_first_def find_all_def
      is_tag_def has_class_def strip_def whitespace_def startswith_def get_text_def interesting_def
      string_container_def string_of_def)

lemma httpfoo_listing_anchor:
  "find_href_anchor httpfoo_listing = Some (Tag ''a'' [(''href'', Str ''httpfoo'')] [])"
  by (simp add: httpfoo_listing_def find_href_anchor_def is_tag_def has_href_def)

lemma bare_listing_anchor: "find_href_anchor bare_listing = None"
  by (simp add: bare_listing_finds)

theorem http_prefix_keeps_href_witness:
  "take 4 ''httpfoo'' = ''http'' \<and>
   extract_listing target_url httpfoo_listing =
     Inr [(''Title'', Some ''N/A''), (''Price'', Some ''N/A''), (''Location'', Some ''N/A''),
          (''Bedrooms'', Some ''3br''), (''Link'', Some ''httpfoo'')] \<and>
   extract_listing target_url bare_listing =
     Inr [(''Title'', Some ''N/A''), (''Price'', Some ''N/A''), (''Location'', Some ''Plano''),
          (''Bedrooms'', Some ''2br''), (''Link'', None)]"
  using http_prefix_keeps_href [of httpfoo_listing target_url]
    http_prefix_keeps_href [of bare_listing target_url]
  by (simp add: httpfoo_listing_anchor bare_listing_anchor httpfoo_listing_fields
      bare_listing_fields bare_listing_location)

text \<open>
  Comments and script text are no part of a field, and white space beyond ASCII is trimmed.
\<close>

lemma villa_listing_record:
  "extract_listing target_url villa_listing =
     Inr [(''Title'', Some ''Villa''), (''Price'', Some ''N/A''), (''Location'', Some ''N/A''),
          (''Bedrooms'', Some ''N/A''), (''Link'', Some ''https://example.org/villa'')]"
  by (simp add: extract_listing_def link_value_def villa_listing_def find_href_anchor_def
      is_tag_def has_href_def div_text_def bedrooms_text_def find_first_def find_all_def
      has_class_def strip_def whitespace_def startswith_def get_text_def interesting_def
      string_container_def string_of_def)

section \<open>The loop over the listings\<close>

lemma extract_loop_eq:
  "extract_loop url ls acc w =
     (acc @ concat (map (kept url) ls), w\<lparr>trace := trace w @ concat (map (warned url) ls)\<rparr>)"
  by (induction ls arbitrary: acc w) (simp_all add: emit_def split: sum.splits)

lemma scrape_once_parsed:
  assumes "responses env (gets w) = Response status text"
    and "raise_for_status status = None"
    and "BeautifulSoup env text = Inr soup"
  shows "scrape_once env url w =
     (Inr (concat (map (kept url) (fst (find_listings soup)))),
      w\<lparr>gets := gets w + 1,
        trace := trace w @ [HttpGet url, Log INFO (Found (length (fst (find_listings soup))))] @
                 concat (map (warned url) (fst (find_listings soup)))\<rparr>)"
  using assms by (simp add: scrape_once_def Let_def extract_loop_eq emit_def)

text \<open>
  C1. When the request and the parse succeed and the extraction of one listing raises, the call
  still returns a list: the records of the listings before it followed by the records of the
  listings after it, each as it would be without the failing one; the failure is logged as a
  warning and is not the result of the call.
\<close>

theorem failing_listing_is_skipped:
  assumes "responses env (gets w) = Response status text"
    and "raise_for_status status = None"
    and "BeautifulSoup env text = Inr soup"
    and "fst (find_listings soup) = xs @ n # ys"
    and "extract_listing url n = Inl e"
  shows "fst (scrape_once env url w) =
           Inr (concat (map (kept url) xs) @ concat (map (kept url) ys)) \<and>
         Log WARNING (ErrorProcessingListing e) \<in> set (trace (snd (scrape_once env url w)))"
  using assms(4,5) by (simp add: scrape_once_parsed [OF assms(1-3)])

lemma find_listings_is_filter:
  "\<exists>nm c. fst (find_listings soup) = filter (\<lambda>d. is_tag nm d \<and> has_class c d) (descendants soup)"
  unfolding find_listings_def Let_def find_all_def by (auto split: if_splits)

lemma extract_listing_keys:
  "extract_listing url m = Inr p \<Longrightarrow>
   map fst p = [''Title'', ''Price'', ''Location'', ''Bedrooms'', ''Link'']"
  by (auto simp: extract_listing_def split: sum.splits)

text \<open>
  C8. When the request and the parse succeed, the call returns exactly the records of the
  listings found, one for each listing whose extraction returns, in the order of the listings:
  nothing is removed, merged or reordered. The listings are the matches of the selector
  consulted last, in the order in which they stand in the document. Every record has the keys
  Title, Price, Location, Bedrooms and Link, in this order and no others.
\<close>

theorem records_five_keys_document_order:
  assumes "responses env (gets w) = Response status text"
    and "raise_for_status status = None"
    and "BeautifulSoup env text = Inr soup"
  shows "fst (scrape_once env url w) =
           Inr (concat (map (kept url) (fst (find_listings soup)))) \<and>
         fst (find_listings soup) =
           filter (\<lambda>d. is_tag (fst (last (snd (find_listings soup)))) d \<and>
                       has_class (snd (last (snd (find_listings soup)))) d)
             (descendants soup) \<and>
         ((\<forall>n \<in> set (fst (find_listings soup)). \<exists>p. extract_listing url n = Inr p) \<longrightarrow>
            fst (scrape_once env url w) =
              Inr (map (\<lambda>n. projr (extract_listing url n)) (fst (find_listings soup)))) \<and>
         (\<forall>p \<in> set (concat (map (kept url) (fst (find_listings soup)))).
            map fst p = [''Title'', ''Price'', ''Location'', ''Bedrooms'', ''Link''])"
proof (intro conjI impI)
  let ?ls = "fst (find_listings soup)"
  show r: "fst (scrape_once env url w) = Inr (concat (map (kept url) ?ls))"
    by (simp add: scrape_once_parsed [OF assms])
  show "?ls = filter (\<lambda>d. is_tag (fst (last (snd (find_listings soup)))) d \<and>
                       has_class (snd (last (snd (find_listings soup)))) d) (descendants soup)"
    by (simp add: find_listings_def Let_def find_all_def)
  show "\<forall>p \<in> set (concat (map (kept url) ?ls)).
          map fst p = [''Title'', ''Price'', ''Location'', ''Bedrooms'', ''Link'']"
  proof
    fix p assume "p \<in> set (concat (map (kept url) ?ls))"
    then obtain m where m: "p \<in> set (kept url m)"
      unfolding set_concat by fastforce
    show "map fst p = [''Title'', ''Price'', ''Location'', ''Bedrooms'', ''Link'']"
    proof (cases "extract_listing url m")
      case (Inl e)
      with m show ?thesis by simp
    next
      case (Inr q)
      with m have "p = q" by simp
      with Inr show ?thesis by (simp add: extract_listing_keys)
    qed
  qed
next
  assume a: "\<forall>n \<in> set (fst (find_listings soup)). \<exists>p. extract_listing url n = Inr p"
  have "concat (map (kept url) ls) = map (\<lambda>n. projr (extract_listing url n)) ls"
    if "\<forall>n \<in> set ls. \<exists>p. extract_listing url n = Inr p" for ls
    using that by (induction ls) auto
  with a show "fst (scrape_once env url w) =
      Inr (map (\<lambda>n. projr (extract_listing url n)) (fst (find_listings soup)))"
    by (simp add: scrape_once_parsed [OF assms])
qed

lemma page_listings: "fst (find_listings page) = [post_listing, multi_listing]"
  by (simp add: find_listings_def Let_def page_def post_listing_def multi_listing_def httpfoo_listing_def find_all_def
      is_tag_def has_class_def)

lemma multi_listing_raises: "extract_listing target_url multi_listing = Inl AttributeError"
  by (simp add: extract_listing_def link_value_def multi_listing_def find_href_anchor_def
      is_tag_def has_href_def)

lemma post_listing_record:
  "extract_listing target_url post_listing =
     Inr [(''Title'', Some ''Nice house''), (''Price'', Some ''N/A''), (''Location'', Some ''N/A''),
          (''Bedrooms'', Some ''N/A''),
          (''Link'', Some ''https://dallas.craigslist.org/search/rea/post/123'')]"
  by (simp add: extract_listing_def link_value_def post_listing_def find_href_anchor_def
      is_tag_def has_href_def div_text_def bedrooms_text_def find_first_def find_all_def
      has_class_def strip_def whitespace_def startswith_def get_text_def interesting_def
      string_container_def string_of_def target_url_def)

lemma bare_listing_record:
  "extract_listing target_url bare_listing =
     Inr [(''Title'', Some ''N/A''), (''Price'', Some ''N/A''), (''Location'', Some ''Plano''),
          (''Bedrooms'', Some ''2br''), (''Link'', None)]"
  by (simp add: extract_listing_def link_value_def bare_listing_def find_href_anchor_def
      is_tag_def has_href_def div_text_def bedrooms_text_def find_first_def find_all_def
      has_class_def strip_def whitespace_def startswith_def get_text_def interesting_def
      string_container_def string_of_def)

theorem failing_listing_is_skipped_witness:
  "fst (find_listings page) = [post_listing, multi_listing] \<and>
   extract_listing target_url multi_listing = Inl AttributeError \<and>
   fst (scrape_once (page_env page) target_url start) =
     Inr [[(''Title'', Some ''Nice house''), (''Price'', Some ''N/A''), (''Location'', Some ''N/A''),
          (''Bedrooms'', Some ''N/A''),
          (''Link'', Some ''https://dallas.craigslist.org/search/rea/post/123'')]] \<and>
   Log WARNING (ErrorProcessingListing AttributeError)
     \<in> set (trace (snd (scrape_once (page_env page) target_url start)))"
  using failing_listing_is_skipped [of "page_env page" start 200 "''<html>''" page
      "[post_listing]" multi_listing "[]" target_url AttributeError]
  by (simp add: page_env_def start_def raise_for_status_def page_listings multi_listing_raises
      post_listing_record)

lemma twins_page_listings:
  "fst (find_listings twins_page) = [post_listing, bare_listing, post_listing]"
  by (simp add: find_listings_def Let_def twins_page_def post_listing_def bare_listing_def
      find_all_def is_tag_def has_class_def)

theorem records_five_keys_document_order_witness:
  "fst (find_listings twins_page) = [post_listing, bare_listing, post_listing] \<and>
   fst (scrape_once (page_env twins_page) target_url start) =
     Inr [[(''Title'', Some ''Nice house''), (''Price'', Some ''N/A''), (''Location'', Some ''N/A''),
           (''Bedrooms'', Some ''N/A''),
           (''Link'', Some ''https://dallas.craigslist.org/search/rea/post/123'')],
          [(''Title'', Some ''N/A''), (''Price'', Some ''N/A''), (''Location'', Some ''Plano''),
           (''Bedrooms'', Some ''2br''), (''Link'', None)],
          [(''Title'', Some ''Nice house''), (''Price'', Some ''N/A''), (''Location'', Some ''N/A''),
           (''Bedrooms'', Some ''N/A''),
           (''Link'', Some ''https://dallas.craigslist.org/search/rea/post/123'')]]"
  using records_five_keys_document_order [of "page_env twins_page" start 200 "''<html>''"
      twins_page target_url, THEN conjunct1]
  by (simp add: page_env_def start_def raise_for_status_def twins_page_listings
      post_listing_record bare_listing_record)

section \<open>The retry wrapper\<close>

declare retry_call.simps [simp del]

lemma scrape_once_run:
  "scrape_once env url w =
     (attempt env url (gets w),
      w\<lparr>gets := Suc (gets w), trace := trace w @ attempt_events env url (gets w)\<rparr>)"
  by (simp add: attempt_def attempt_events_def scrape_once_def scrape_failed_def Let_def
      extract_loop_eq emit_def split: http_outcome.splits option.splits sum.splits)

lemma naps_append: "naps (xs @ ys) = naps xs @ naps ys"
  by (induction xs) (simp_all split: event.splits)

lemma naps_warned: "naps (concat (map (warned url) ls)) = []"
  by (induction ls) (simp_all add: naps_append split: sum.splits)

lemma naps_attempt_events: "naps (attempt_events env url k) = []"
  by (simp add: attempt_events_def scrape_once_def scrape_failed_def Let_def
      extract_loop_eq emit_def naps_append naps_warned split: http_outcome.splits option.splits sum.splits)


lemma scrape_properties_unfold:
  "scrape_properties env url w =
     (let k = gets w;
          t1 = trace w @ attempt_events env url k;
          t2 = t1 @ Sleep 2 # attempt_events env url (k + 1);
          t3 = t2 @ Sleep 2 # attempt_events env url (k + 2)
      in case attempt env url k of
           Inr ps \<Rightarrow> (Inr ps, w\<lparr>gets := k + 1, trace := t1\<rparr>)
         | Inl e1 \<Rightarrow>
             (case attempt env url (k + 1) of
                Inr ps \<Rightarrow> (Inr ps, w\<lparr>gets := k + 2, trace := t2\<rparr>)
              | Inl e2 \<Rightarrow>
                  (case attempt env url (k + 2) of
                     Inr ps \<Rightarrow> (Inr ps, w\<lparr>gets := k + 3, trace := t3\<rparr>)
                   | Inl e3 \<Rightarrow> (Inl (RetryError e3), w\<lparr>gets := k + 3, trace := t3\<rparr>))))"
  by (simp add: scrape_properties_def retry_call.simps [of _ "Suc 0"]
      retry_call.simps [of _ "Suc (Suc 0)"] retry_call.simps [of _ "Suc (Suc (Suc 0))"]
      scrape_once_run emit_def Let_def split: sum.splits)

text \<open>
  C5, as amended. A call makes between one and three requests, with one sleep of 2 seconds
  between one attempt and the next, whatever the failure was. When the first two attempts fail
  and the third returns, the call returns its records after exactly two sleeps. When all three
  fail, the caller gets \<^verbatim>\<open>RetryError\<close> carrying the failure of the third attempt.
\<close>

theorem three_attempts_two_waits:
  "gets w < gets (snd (scrape_properties env url w)) \<and>
   gets (snd (scrape_properties env url w)) \<le> gets w + 3 \<and>
   naps (trace (snd (scrape_properties env url w))) =
     naps (trace w) @ replicate (gets (snd (scrape_properties env url w)) - gets w - 1) 2 \<and>
   (\<forall>e1 e2 ps.
      attempt env url (gets w) = Inl e1 \<and> attempt env url (gets w + 1) = Inl e2 \<and>
      attempt env url (gets w + 2) = Inr ps \<longrightarrow>
        fst (scrape_properties env url w) = Inr ps \<and>
        naps (trace (snd (scrape_properties env url w))) = naps (trace w) @ [2, 2]) \<and>
   (\<forall>e1 e2 e3.
      attempt env url (gets w) = Inl e1 \<and> attempt env url (gets w + 1) = Inl e2 \<and>
      attempt env url (gets w + 2) = Inl e3 \<longrightarrow>
        fst (scrape_properties env url w) = Inl (RetryError e3) \<and>
        naps (trace (snd (scrape_properties env url w))) = naps (trace w) @ [2, 2])"
  by (simp add: scrape_properties_unfold Let_def naps_append naps_attempt_events
      eval_nat_numeral split: sum.splits)

lemma page_records:
  "concat (map (kept target_url) (fst (find_listings page))) =
     [[(''Title'', Some ''Nice house''), (''Price'', Some ''N/A''), (''Location'', Some ''N/A''),
       (''Bedrooms'', Some ''N/A''),
       (''Link'', Some ''https://dallas.craigslist.org/search/rea/post/123'')]]"
  by (simp add: page_listings post_listing_record multi_listing_raises)

lemma down_env_attempt: "attempt down_env url k = Inl ConnectionError"
  by (simp add: attempt_def scrape_once_def scrape_failed_def down_env_def)

lemma recover_env_attempt:
  "attempt recover_env target_url k =
     (if k < 2 then Inl ConnectionError
      else Inr [[(''Title'', Some ''Nice house''), (''Price'', Some ''N/A''), (''Location'', Some ''N/A''),
       (''Bedrooms'', Some ''N/A''),
       (''Link'', Some ''https://dallas.craigslist.org/search/rea/post/123'')]])"
proof (cases "k < 2")
  case True
  then show ?thesis
    by (simp add: attempt_def scrape_once_def scrape_failed_def recover_env_def)
next
  case False
  then have "scrape_once recover_env target_url \<lparr>files = Map.empty, gets = k, trace = []\<rparr> =
     (Inr (concat (map (kept target_url) (fst (find_listings page)))),
      \<lparr>files = Map.empty, gets = k, trace = []\<rparr>\<lparr>gets := k + 1,
        trace := [] @ [HttpGet target_url, Log INFO (Found (length (fst (find_listings page))))] @
                 concat (map (warned target_url) (fst (find_listings page)))\<rparr>)"
    using scrape_once_parsed [of recover_env "\<lparr>files = Map.empty, gets = k, trace = []\<rparr>" 200
        "''<html>''" page target_url]
    by (simp add: recover_env_def raise_for_status_def)
  with False show ?thesis
    by (simp add: attempt_def page_records)
qed

theorem three_attempts_two_waits_witness:
  "attempt recover_env target_url 0 = Inl ConnectionError \<and>
   attempt recover_env target_url 1 = Inl ConnectionError \<and>
   fst (scrape_properties recover_env target_url start) =
     Inr [[(''Title'', Some ''Nice house''), (''Price'', Some ''N/A''), (''Location'', Some ''N/A''),
       (''Bedrooms'', Some ''N/A''),
       (''Link'', Some ''https://dallas.craigslist.org/search/rea/post/123'')]] \<and>
   naps (trace (snd (scrape_properties recover_env target_url start))) = [2, 2] \<and>
   gets (snd (scrape_properties recover_env target_url start)) \<le> 3 \<and>
   fst (scrape_properties down_env target_url start) = Inl (RetryError ConnectionError)"
  using three_attempts_two_waits [of start recover_env target_url, THEN conjunct2, THEN conjunct1]
    three_attempts_two_waits [of start recover_env target_url, THEN conjunct2, THEN conjunct2,
      THEN conjunct2, THEN conjunct1]
    three_attempts_two_waits [of start down_env target_url, THEN conjunct2, THEN conjunct2,
      THEN conjunct2, THEN conjunct2]
  by (simp add: start_def recover_env_attempt down_env_attempt)

text \<open>
  C5 as stated fails on the last part: with every request refused, the caller does not get the
  connection error itself.
\<close>

theorem last_failure_is_wrapped_counterexample:
  "attempt down_env target_url 2 = Inl ConnectionError \<and>
   fst (scrape_properties down_env target_url start) = Inl (RetryError ConnectionError) \<and>
   fst (scrape_properties down_env target_url start) \<noteq> Inl ConnectionError"
  by (simp add: scrape_properties_unfold Let_def down_env_attempt)

section \<open>The sinks and main\<close>

lemma filter_warned:
  "\<forall>l m. \<not> P (Log l m) \<Longrightarrow> filter P (concat (map (warned url) ls)) = []"
  by (induction ls) (simp_all split: sum.splits)

lemma filter_attempt_events:
  assumes "\<forall>l m. \<not> P (Log l m)" and "\<forall>u. \<not> P (HttpGet u)"
  shows "filter P (attempt_events env url k) = []"
  using assms
  by (simp add: attempt_events_def scrape_once_def scrape_failed_def Let_def
      extract_loop_eq emit_def filter_warned split: http_outcome.splits option.splits sum.splits)

lemma scrape_properties_keeps:
  assumes "\<forall>l m. \<not> P (Log l m)" and "\<forall>u. \<not> P (HttpGet u)" and "\<forall>d. \<not> P (Sleep d)"
    and "scrape_properties env url w = (r, w1)"
  shows "filter P (trace w1) = filter P (trace w) \<and> files w1 = files w"
  using assms(4) assms(1-3)
  by (auto simp: scrape_properties_unfold Let_def filter_attempt_events split: sum.splits)

lemma attempt_parse_failure:
  "responses env k = Response status text \<Longrightarrow> raise_for_status status = None \<Longrightarrow>
   BeautifulSoup env text = Inl e \<Longrightarrow> attempt env url k = Inl e"
  by (simp add: attempt_def scrape_once_def scrape_failed_def)

lemma attempt_parsed:
  "responses env k = Response status text \<Longrightarrow> raise_for_status status = None \<Longrightarrow>
   BeautifulSoup env text = Inr soup \<Longrightarrow>
   attempt env url k = Inr (concat (map (kept url) (fst (find_listings soup))))"
  by (simp add: attempt_def scrape_once_def Let_def extract_loop_eq)

lemma save_to_csv_trace:
  "save_to_csv env data filename w = (r, w1) \<Longrightarrow>
   \<exists>l m. trace w1 = trace w @ [ToCsv filename, Log l m]"
  by (auto simp: save_to_csv_def Let_def emit_def split: option.splits)

lemma send_telegram_alert_trace:
  "send_telegram_alert env data w = (r, w1) \<Longrightarrow>
   files w1 = files w \<and>
   (trace w1 = trace w \<or> (\<exists>text l m. trace w1 = trace w @ [HttpPost text, Log l m]))"
  by (auto simp: send_telegram_alert_def Let_def emit_def
      split: option.splits sum.splits http_outcome.splits)

lemma send_email_trace:
  "send_email env data w = (r, w1) \<Longrightarrow>
   files w1 = files w \<and>
   (\<exists>l m. trace w1 = trace w @ [Log l m] \<or> (\<exists>html. trace w1 = trace w @ [SmtpSend html, Log l m]))"
  by (auto simp: send_email_def Let_def emit_def split: option.splits sum.splits)

lemma main_cases:
  "\<exists>r w1. scrape_properties env target_url w = (r, w1) \<and>
     ((\<exists>e. r = Inl e \<and> main env w = (Inl e, emit (Log ERROR (ScriptFailed e)) w1)) \<or>
      (r = Inr [] \<and> main env w = (Inr (), emit (Log WARNING NoPropertiesScraped) w1)) \<or>
      (\<exists>ps l m. r = Inr ps \<and> ps \<noteq> [] \<and>
         (\<exists>q. trace (snd (main env w)) = trace w1 @ [ToCsv ''properties.csv'', Log l m] @ q \<and>
            (\<forall>ev \<in> set q. is_Log ev) \<or>
          (\<exists>text q. trace (snd (main env w)) =
             trace w1 @ [ToCsv ''properties.csv'', Log l m, HttpPost text] @ q \<and>
            (\<forall>ev \<in> set q. is_Log ev)))))"
proof (cases "scrape_properties env target_url w")
  case (Pair r w1)
  show ?thesis
  proof (cases r)
    case (Inl e)
    with Pair show ?thesis by (simp add: main_def script_failed_def)
  next
    case (Inr ps)
    show ?thesis
    proof (cases "ps = []")
      case True
      with Pair Inr show ?thesis by (simp add: main_def)
    next
      case False
      obtain r2 w2 where s: "save_to_csv env ps ''properties.csv'' w1 = (r2, w2)"
        by (cases "save_to_csv env ps ''properties.csv'' w1")
      then obtain l m where t2: "trace w2 = trace w1 @ [ToCsv ''properties.csv'', Log l m]"
        using save_to_csv_trace by blast
      obtain r3 w3 where a: "send_telegram_alert env ps w2 = (r3, w3)"
        by (cases "send_telegram_alert env ps w2")
      from send_telegram_alert_trace [OF a]
      have t3: "trace w3 = trace w2 \<or> (\<exists>text l m. trace w3 = trace w2 @ [HttpPost text, Log l m])"
        by simp
      have m: "main env w =
          (case r2 of Inl e \<Rightarrow> script_failed e w2
           | Inr u \<Rightarrow> (case r3 of Inl e \<Rightarrow> script_failed e w3 | Inr u' \<Rightarrow> (Inr (), w3)))"
        using Pair Inr False s a by (simp add: main_def split: sum.splits)
      have "(\<exists>q. trace (snd (main env w)) = trace w1 @ [ToCsv ''properties.csv'', Log l m] @ q \<and>
            (\<forall>ev \<in> set q. is_Log ev)) \<or>
          (\<exists>text q. trace (snd (main env w)) =
             trace w1 @ [ToCsv ''properties.csv'', Log l m, HttpPost text] @ q \<and>
            (\<forall>ev \<in> set q. is_Log ev))"
        using t2 t3 by (auto simp: m script_failed_def emit_def split: sum.splits)
      with Pair Inr False show ?thesis by blast
    qed
  qed
qed


lemma first_seen_subset: "set ks \<subseteq> set seen \<Longrightarrow> first_seen seen ks = []"
  by (induction ks arbitrary: seen) auto

lemma first_seen_prefix:
  "distinct ks \<Longrightarrow> set ks \<inter> set seen = {} \<Longrightarrow> set rest \<subseteq> set ks \<union> set seen \<Longrightarrow>
   first_seen seen (ks @ rest) = ks"
proof (induction ks arbitrary: seen)
  case Nil
  then show ?case by (simp add: first_seen_subset)
next
  case (Cons k ks)
  have "first_seen (k # seen) (ks @ rest) = ks"
    using Cons.prems by (intro Cons.IH) auto
  with Cons.prems show ?case by simp
qed

lemma keys_of_all:
  "\<forall>p \<in> set data. map fst p = ks \<Longrightarrow> set (concat (map (map fst) data)) \<subseteq> set ks"
  by (induction data) auto

lemma same_keys_columns:
  assumes "data \<noteq> []" and "\<forall>p \<in> set data. map fst p = ks" and "distinct ks"
  shows "first_seen [] (concat (map (map fst) data)) = ks"
proof -
  obtain p ps where d: "data = p # ps"
    using assms(1) by (cases data) auto
  have "set (concat (map (map fst) ps)) \<subseteq> set ks"
    using assms(2) d by (intro keys_of_all) simp
  then have "first_seen [] (ks @ concat (map (map fst) ps)) = ks"
    using assms(3) by (intro first_seen_prefix) auto
  moreover have "map fst p = ks"
    using assms(2) d by simp
  ultimately show ?thesis
    by (simp add: d)
qed

lemma same_keys_cells:
  assumes "map fst p = ks" and "distinct ks"
  shows "map (cell p) ks = map snd p"
proof -
  have "cell p (fst x) = snd x" if "x \<in> set p" for x
  proof -
    have "map_of p (fst x) = Some (snd x)"
      using that assms by (intro map_of_is_SomeI) simp_all
    then show ?thesis by (simp add: cell_def)
  qed
  then have "map (cell p) (map fst p) = map snd p"
    by simp
  with assms(1) show ?thesis by simp
qed

text \<open>
  C7, as amended. For a list of at least one record in which every record has the same keys,
  inserted in the same order, a successful write leaves at the path a table whose header is
  exactly these keys in this order, with one row per record, whatever was at the path before;
  no other file changes. The records of the extractor have the keys Title, Price, Location,
  Bedrooms, Link in this order, so their columns are in this order; records built in another
  order give columns in that other order.
\<close>

theorem csv_columns_follow_record_keys:
  assumes "data \<noteq> []"
    and "\<forall>p \<in> set data. map fst p = ks"
    and "distinct ks"
    and "to_csv_error env = None"
  shows "fst (save_to_csv env data filename w) = Inr () \<and>
         files (snd (save_to_csv env data filename w)) filename =
           Some \<lparr>columns = ks, rows = map (map snd) data\<rparr> \<and>
         (\<forall>other. other \<noteq> filename \<longrightarrow>
            files (snd (save_to_csv env data filename w)) other = files w other)"
proof -
  have "map (\<lambda>p. map (cell p) ks) data = map (map snd) data"
    using assms(2,3) by (intro map_cong refl same_keys_cells) simp_all
  then have "DataFrame data = \<lparr>columns = ks, rows = map (map snd) data\<rparr>"
    by (simp add: DataFrame_def Let_def same_keys_columns [OF assms(1-3)])
  then show ?thesis
    using assms(4) by (simp add: save_to_csv_def Let_def emit_def)
qed

theorem csv_columns_follow_record_keys_witness:
  "files stale_world ''properties.csv'' = Some \<lparr>columns = [''old''], rows = [[Some ''row'']]\<rparr> \<and>
   files (snd (save_to_csv (page_env page) [post_record, post_record] ''properties.csv'' stale_world))
       ''properties.csv'' =
     Some \<lparr>columns = [''Title'', ''Price'', ''Location'', ''Bedrooms'', ''Link''],
           rows = [[Some ''Nice house'', Some ''N/A'', Some ''N/A'', Some ''N/A'',
                    Some ''https://dallas.craigslist.org/search/rea/post/123''],
                   [Some ''Nice house'', Some ''N/A'', Some ''N/A'', Some ''N/A'',
                    Some ''https://dallas.craigslist.org/search/rea/post/123'']]\<rparr> \<and>
   files (snd (save_to_csv (page_env page) [link_first_record] ''properties.csv'' stale_world))
       ''properties.csv'' =
     Some \<lparr>columns = [''Link'', ''Title'', ''Price'', ''Location'', ''Bedrooms''],
           rows = [[Some ''https://dallas.craigslist.org/search/rea/post/123'', Some ''Nice house'',
                    Some ''N/A'', Some ''N/A'', Some ''N/A'']]\<rparr>"
  using csv_columns_follow_record_keys [of "[post_record, post_record]"
      "[''Title'', ''Price'', ''Location'', ''Bedrooms'', ''Link'']" "page_env page"
      "''properties.csv''" stale_world]
    csv_columns_follow_record_keys [of "[link_first_record]"
      "[''Link'', ''Title'', ''Price'', ''Location'', ''Bedrooms'']" "page_env page"
      "''properties.csv''" stale_world]
  by (simp add: post_record_def link_first_record_def page_env_def stale_world_def)

text \<open>
  C7 as stated fails: the columns follow the insertion order of the keys of the records.
\<close>

theorem csv_columns_follow_insertion_order_counterexample:
  "files (snd (save_to_csv (page_env page) [link_first_record] ''properties.csv'' start))
       ''properties.csv'' =
     Some \<lparr>columns = [''Link'', ''Title'', ''Price'', ''Location'', ''Bedrooms''],
           rows = [[Some ''https://dallas.craigslist.org/search/rea/post/123'', Some ''Nice house'',
                    Some ''N/A'', Some ''N/A'', Some ''N/A'']]\<rparr> \<and>
   columns (DataFrame [link_first_record]) \<noteq>
     [''Title'', ''Price'', ''Location'', ''Bedrooms'', ''Link'']"
  by (simp add: save_to_csv_def DataFrame_def Let_def emit_def link_first_record_def page_env_def
      start_def cell_def)

lemma telegram_empty:
  "send_telegram_alert env [] w =
     (case post_outcome env of
        Failed e \<Rightarrow> (Inl e, w\<lparr>trace := trace w @ [HttpPost no_properties_message, Log ERROR (FailedTelegram e)]\<rparr>)
      | Response status text \<Rightarrow>
          (case raise_for_status status of
             Some e \<Rightarrow> (Inl e, w\<lparr>trace := trace w @ [HttpPost no_properties_message, Log ERROR (FailedTelegram e)]\<rparr>)
           | None \<Rightarrow> (Inr (), w\<lparr>trace := trace w @ [HttpPost no_properties_message, Log INFO TelegramSent]\<rparr>)))"
  by (simp add: send_telegram_alert_def telegram_message_def Let_def emit_def
      split: http_outcome.splits option.splits)

text \<open>
  C6. When the scrape returns no record, \<^verbatim>\<open>main\<close> returns normally, writes no file, posts no
  chat message, sends no mail, and its last log line is the warning. Called with an empty list,
  the chat sink posts the fixed message that no properties were found.
\<close>

theorem no_records_no_sinks:
  "(fst (scrape_properties env target_url w) = Inr [] \<longrightarrow>
      fst (main env w) = Inr () \<and>
      files (snd (main env w)) = files w \<and>
      filter is_ToCsv (trace (snd (main env w))) = filter is_ToCsv (trace w) \<and>
      filter is_HttpPost (trace (snd (main env w))) = filter is_HttpPost (trace w) \<and>
      filter is_SmtpSend (trace (snd (main env w))) = filter is_SmtpSend (trace w) \<and>
      last (trace (snd (main env w))) = Log WARNING NoPropertiesScraped) \<and>
   telegram_message [] = Inr no_properties_message \<and>
   filter is_HttpPost (trace (snd (send_telegram_alert env [] w))) =
     filter is_HttpPost (trace w) @ [HttpPost no_properties_message]"
proof (intro conjI impI)
  assume a: "fst (scrape_properties env target_url w) = Inr []"
  obtain w1 where s: "scrape_properties env target_url w = (Inr [], w1)"
    using a by (cases "scrape_properties env target_url w") simp
  have m: "main env w = (Inr (), emit (Log WARNING NoPropertiesScraped) w1)"
    using s by (simp add: main_def)
  show "fst (main env w) = Inr ()" by (simp add: m)
  show "files (snd (main env w)) = files w"
    using scrape_properties_keeps [OF _ _ _ s, of is_ToCsv] by (simp add: m emit_def)
  show "filter is_ToCsv (trace (snd (main env w))) = filter is_ToCsv (trace w)"
    using scrape_properties_keeps [OF _ _ _ s, of is_ToCsv] by (simp add: m emit_def)
  show "filter is_HttpPost (trace (snd (main env w))) = filter is_HttpPost (trace w)"
    using scrape_properties_keeps [OF _ _ _ s, of is_HttpPost] by (simp add: m emit_def)
  show "filter is_SmtpSend (trace (snd (main env w))) = filter is_SmtpSend (trace w)"
    using scrape_properties_keeps [OF _ _ _ s, of is_SmtpSend] by (simp add: m emit_def)
  show "last (trace (snd (main env w))) = Log WARNING NoPropertiesScraped"
    by (simp add: m emit_def)
next
  show "telegram_message [] = Inr no_properties_message"
    by (simp add: telegram_message_def)
  show "filter is_HttpPost (trace (snd (send_telegram_alert env [] w))) =
     filter is_HttpPost (trace w) @ [HttpPost no_properties_message]"
    by (simp add: telegram_empty split: http_outcome.splits option.splits)
qed

lemma empty_page_attempt: "attempt (page_env empty_page) target_url k = Inr []"
  using attempt_parsed [of "page_env empty_page" k 200 "''<html>''" empty_page target_url]
  by (simp add: page_env_def raise_for_status_def find_listings_def Let_def empty_page_def
      find_all_def is_tag_def has_class_def)

lemma empty_page_scrape: "fst (scrape_properties (page_env empty_page) target_url start) = Inr []"
  by (simp add: scrape_properties_unfold Let_def empty_page_attempt)

theorem no_records_no_sinks_witness:
  "fst (scrape_properties (page_env empty_page) target_url start) = Inr [] \<and>
   fst (main (page_env empty_page) start) = Inr () \<and>
   files (snd (main (page_env empty_page) start)) = Map.empty \<and>
   filter is_ToCsv (trace (snd (main (page_env empty_page) start))) = [] \<and>
   filter is_HttpPost (trace (snd (main (page_env empty_page) start))) = [] \<and>
   last (trace (snd (main (page_env empty_page) start))) = Log WARNING NoPropertiesScraped"
  using no_records_no_sinks [of "page_env empty_page" start]
  by (simp add: empty_page_scrape) (simp add: start_def)

section \<open>What is retried\<close>

lemma count_main_sinks:
  "length (filter is_ToCsv (trace (snd (main env w)))) \<le> length (filter is_ToCsv (trace w)) + 1 \<and>
   length (filter is_HttpPost (trace (snd (main env w)))) \<le> length (filter is_HttpPost (trace w)) + 1 \<and>
   filter is_SmtpSend (trace (snd (main env w))) = filter is_SmtpSend (trace w)"
proof -
  obtain r w1 where s: "scrape_properties env target_url w = (r, w1)"
    and c: "(\<exists>e. r = Inl e \<and> main env w = (Inl e, emit (Log ERROR (ScriptFailed e)) w1)) \<or>
      (r = Inr [] \<and> main env w = (Inr (), emit (Log WARNING NoPropertiesScraped) w1)) \<or>
      (\<exists>ps l m. r = Inr ps \<and> ps \<noteq> [] \<and>
         (\<exists>q. trace (snd (main env w)) = trace w1 @ [ToCsv ''properties.csv'', Log l m] @ q \<and>
            (\<forall>ev \<in> set q. is_Log ev) \<or>
          (\<exists>text q. trace (snd (main env w)) =
             trace w1 @ [ToCsv ''properties.csv'', Log l m, HttpPost text] @ q \<and>
            (\<forall>ev \<in> set q. is_Log ev))))"
    using main_cases [of env w] by blast
  have k1: "filter is_ToCsv (trace w1) = filter is_ToCsv (trace w)"
    using scrape_properties_keeps [OF _ _ _ s, of is_ToCsv] by simp
  have k2: "filter is_HttpPost (trace w1) = filter is_HttpPost (trace w)"
    using scrape_properties_keeps [OF _ _ _ s, of is_HttpPost] by simp
  have k3: "filter is_SmtpSend (trace w1) = filter is_SmtpSend (trace w)"
    using scrape_properties_keeps [OF _ _ _ s, of is_SmtpSend] by simp
  have logs: "\<And>q. \<forall>ev \<in> set q. is_Log ev \<Longrightarrow>
      filter is_ToCsv q = [] \<and> filter is_HttpPost q = [] \<and> filter is_SmtpSend q = []"
    by (auto simp: filter_empty_conv event.disc_eq_case split: event.splits)
  from c show ?thesis
  proof (elim disjE exE conjE)
    fix e assume "main env w = (Inl e, emit (Log ERROR (ScriptFailed e)) w1)"
    then show ?thesis by (simp add: emit_def k1 k2 k3)
  next
    assume "main env w = (Inr (), emit (Log WARNING NoPropertiesScraped) w1)"
    then show ?thesis by (simp add: emit_def k1 k2 k3)
  next
    fix ps l m q
    assume "trace (snd (main env w)) = trace w1 @ [ToCsv ''properties.csv'', Log l m] @ q"
      and "\<forall>ev \<in> set q. is_Log ev"
    then show ?thesis using logs [of q] by (simp add: k1 k2 k3)
  next
    fix ps l m posted q
    assume "trace (snd (main env w)) = trace w1 @ [ToCsv ''properties.csv'', Log l m, HttpPost posted] @ q"
      and "\<forall>ev \<in> set q. is_Log ev"
    then show ?thesis using logs [of q] by (simp add: k1 k2 k3)
  qed
qed

lemma count_save_to_csv:
  "length (filter is_ToCsv (trace (snd (save_to_csv env data filename w)))) =
     length (filter is_ToCsv (trace w)) + 1"
  using save_to_csv_trace [of env data filename w "fst (save_to_csv env data filename w)"
      "snd (save_to_csv env data filename w)"]
  by auto

lemma count_send_telegram_alert:
  "length (filter is_HttpPost (trace (snd (send_telegram_alert env data w)))) \<le>
     length (filter is_HttpPost (trace w)) + 1"
  using send_telegram_alert_trace [of env data w "fst (send_telegram_alert env data w)"
      "snd (send_telegram_alert env data w)"]
  by auto

lemma count_send_email:
  "length (filter is_SmtpSend (trace (snd (send_email env data w)))) \<le>
     length (filter is_SmtpSend (trace w)) + 1"
  using send_email_trace [of env data w "fst (send_email env data w)"
      "snd (send_email env data w)"]
  by auto

lemma retried_after_failure:
  "attempt env url (gets w) = Inl e \<Longrightarrow>
   gets w + 2 \<le> gets (snd (scrape_properties env url w)) \<and>
   Sleep 2 \<in> set (trace (snd (scrape_properties env url w)))"
  by (simp add: scrape_properties_unfold Let_def split: sum.splits)

lemma returned_after_success:
  "attempt env url (gets w) = Inr ps \<Longrightarrow>
   scrape_properties env url w =
     (Inr ps, w\<lparr>gets := gets w + 1, trace := trace w @ attempt_events env url (gets w)\<rparr>)"
  by (simp add: scrape_properties_unfold Let_def)

text \<open>
  C9, as amended. The retry wraps the whole of \<^verbatim>\<open>scrape_properties\<close>: when the response is
  good and the parse raises, the call sleeps and requests the page again. When the response is
  good and the parse returns, the call returns after this one request without sleeping,
  whatever happens in single listings. The sinks are not retried: \<^verbatim>\<open>save_to_csv\<close> writes
  once, \<^verbatim>\<open>send_telegram_alert\<close> posts at most once, \<^verbatim>\<open>send_email\<close> opens at most one mail
  session, and \<^verbatim>\<open>main\<close> writes at most once, posts at most once and sends no mail.
\<close>

theorem retry_wraps_the_whole_call:
  "(\<forall>status text e.
      responses env (gets w) = Response status text \<and> raise_for_status status = None \<and>
      BeautifulSoup env text = Inl e \<longrightarrow>
        gets w + 2 \<le> gets (snd (scrape_properties env url w)) \<and>
        Sleep 2 \<in> set (trace (snd (scrape_properties env url w)))) \<and>
   (\<forall>status text soup.
      responses env (gets w) = Response status text \<and> raise_for_status status = None \<and>
      BeautifulSoup env text = Inr soup \<longrightarrow>
        fst (scrape_properties env url w) = Inr (concat (map (kept url) (fst (find_listings soup)))) \<and>
        gets (snd (scrape_properties env url w)) = gets w + 1 \<and>
        naps (trace (snd (scrape_properties env url w))) = naps (trace w)) \<and>
   length (filter is_ToCsv (trace (snd (save_to_csv env data filename w)))) =
     length (filter is_ToCsv (trace w)) + 1 \<and>
   length (filter is_HttpPost (trace (snd (send_telegram_alert env data w)))) \<le>
     length (filter is_HttpPost (trace w)) + 1 \<and>
   length (filter is_SmtpSend (trace (snd (send_email env data w)))) \<le>
     length (filter is_SmtpSend (trace w)) + 1 \<and>
   length (filter is_ToCsv (trace (snd (main env w)))) \<le> length (filter is_ToCsv (trace w)) + 1 \<and>
   length (filter is_HttpPost (trace (snd (main env w)))) \<le> length (filter is_HttpPost (trace w)) + 1 \<and>
   filter is_SmtpSend (trace (snd (main env w))) = filter is_SmtpSend (trace w)"
proof (intro conjI allI impI)
  fix status body e
  assume a: "responses env (gets w) = Response status body \<and> raise_for_status status = None \<and>
      BeautifulSoup env body = Inl e"
  then have f: "attempt env url (gets w) = Inl e"
    by (simp add: attempt_parse_failure)
  show "gets w + 2 \<le> gets (snd (scrape_properties env url w))"
    using retried_after_failure [OF f] by simp
  show "Sleep 2 \<in> set (trace (snd (scrape_properties env url w)))"
    using retried_after_failure [OF f] by simp
next
  fix status body soup
  assume a: "responses env (gets w) = Response status body \<and> raise_for_status status = None \<and>
      BeautifulSoup env body = Inr soup"
  then have f: "attempt env url (gets w) = Inr (concat (map (kept url) (fst (find_listings soup))))"
    by (simp add: attempt_parsed)
  show "fst (scrape_properties env url w) = Inr (concat (map (kept url) (fst (find_listings soup))))"
    by (simp add: returned_after_success [OF f])
  show "gets (snd (scrape_properties env url w)) = gets w + 1"
    by (simp add: returned_after_success [OF f])
  show "naps (trace (snd (scrape_properties env url w))) = naps (trace w)"
    by (simp add: returned_after_success [OF f] naps_append naps_attempt_events)
next
  show "length (filter is_ToCsv (trace (snd (save_to_csv env data filename w)))) =
     length (filter is_ToCsv (trace w)) + 1"
    by (rule count_save_to_csv)
  show "length (filter is_HttpPost (trace (snd (send_telegram_alert env data w)))) \<le>
     length (filter is_HttpPost (trace w)) + 1"
    by (rule count_send_telegram_alert)
  show "length (filter is_SmtpSend (trace (snd (send_email env data w)))) \<le>
     length (filter is_SmtpSend (trace w)) + 1"
    by (rule count_send_email)
  show "length (filter is_ToCsv (trace (snd (main env w)))) \<le> length (filter is_ToCsv (trace w)) + 1"
    using count_main_sinks [of env w] by simp
  show "length (filter is_HttpPost (trace (snd (main env w)))) \<le> length (filter is_HttpPost (trace w)) + 1"
    using count_main_sinks [of env w] by simp
  show "filter is_SmtpSend (trace (snd (main env w))) = filter is_SmtpSend (trace w)"
    using count_main_sinks [of env w] by simp
qed


lemma reparse_env_attempts:
  "attempt reparse_env target_url 0 = Inl ParserRejectedMarkup"
  "attempt reparse_env target_url (Suc 0) =
     Inr (concat (map (kept target_url) (fst (find_listings page))))"
  using attempt_parse_failure [of reparse_env 0 200 "''<![x]>''" ParserRejectedMarkup target_url]
    attempt_parsed [of reparse_env "Suc 0" 200 "''<html>''" page target_url]
  by (simp_all add: reparse_env_def raise_for_status_def)

lemma reparse_env_events:
  "attempt_events reparse_env target_url 0 =
     [HttpGet target_url, Log ERROR (ScrapingFailed ParserRejectedMarkup)]"
  "filter is_HttpGet (attempt_events reparse_env target_url (Suc 0)) = [HttpGet target_url]"
  by (simp_all add: attempt_events_def scrape_once_def scrape_failed_def emit_def Let_def
      extract_loop_eq reparse_env_def raise_for_status_def filter_warned)

text \<open>
  C9 as stated fails: a parse failure after a good response is followed by a sleep and a second
  request.
\<close>

theorem refetch_after_parse_failure_counterexample:
  "responses reparse_env 0 = Response 200 ''<![x]>'' \<and>
   raise_for_status 200 = None \<and>
   BeautifulSoup reparse_env ''<![x]>'' = Inl ParserRejectedMarkup \<and>
   filter is_HttpGet (trace (snd (scrape_properties reparse_env target_url start))) =
     [HttpGet target_url, HttpGet target_url] \<and>
   naps (trace (snd (scrape_properties reparse_env target_url start))) = [2]"
  by (simp add: scrape_properties_unfold Let_def start_def reparse_env_attempts
      reparse_env_events naps_append naps_attempt_events)
    (simp add: reparse_env_def raise_for_status_def)

theorem retry_wraps_the_whole_call_witness:
  "responses reparse_env (gets start) = Response 200 ''<![x]>'' \<and>
   BeautifulSoup reparse_env ''<![x]>'' = Inl ParserRejectedMarkup \<and>
   2 \<le> gets (snd (scrape_properties reparse_env target_url start)) \<and>
   Sleep 2 \<in> set (trace (snd (scrape_properties reparse_env target_url start))) \<and>
   extract_listing target_url multi_listing = Inl AttributeError \<and>
   fst (scrape_properties (page_env page) target_url start) = Inr [post_record] \<and>
   gets (snd (scrape_properties (page_env page) target_url start)) = 1"
  using retry_wraps_the_whole_call [of reparse_env start target_url, THEN conjunct1]
    retry_wraps_the_whole_call [of "page_env page" start target_url, THEN conjunct2, THEN conjunct1]
  by (simp add: reparse_env_def page_env_def start_def raise_for_status_def page_records
      multi_listing_raises post_record_def)

end
